theory Spec2Isabelle
  imports Complex_Main "HOL-Library.Word"
begin

section \<open>JavaScript strings\<close>

text \<open>
  A JavaScript string is a sequence of UTF-16 code units. String literals of the source
  are written with \<open>str\<close> for their ASCII stretches and as explicit code units elsewhere
  (\<open>0xE3\<close> is the letter a with tilde, \<open>0x27\<close> the apostrophe, \<open>0x22\<close> the double quote).
\<close>

type_synonym js_string = "16 word list"

definition str :: "string \<Rightarrow> js_string" where
  "str s = map of_char s"

text \<open>
  \<open>String.prototype.trim\<close> strips the ECMAScript WhiteSpace and LineTerminator code
  points from both ends; all of them lie in the Basic Multilingual Plane.
\<close>

definition isWhiteSpace :: "16 word \<Rightarrow> bool" where
  "isWhiteSpace c \<longleftrightarrow>
     c \<in> {0x09, 0x0A, 0x0B, 0x0C, 0x0D, 0x20, 0xA0, 0x1680, 0x2028, 0x2029,
          0x202F, 0x205F, 0x3000, 0xFEFF}
     \<or> (0x2000 \<le> c \<and> c \<le> 0x200A)"

definition trim :: "js_string \<Rightarrow> js_string" where
  "trim s = rev (dropWhile isWhiteSpace (rev (dropWhile isWhiteSpace s)))"

text \<open>
  \<open>Date.now().toString()\<close>: the decimal digits of an integer number of milliseconds,
  with a minus sign for a clock set before the epoch.
\<close>

fun digits :: "nat \<Rightarrow> js_string" where
  "digits n =
     (if n < 10 then [0x30 + of_nat n]
      else digits (n div 10) @ [0x30 + of_nat (n mod 10)])"

definition toString :: "int \<Rightarrow> js_string" where
  "toString i = (if i < 0 then 0x2D # digits (nat (- i)) else digits (nat i))"

section \<open>Values at run time\<close>

text \<open>
  The types \<open>TranslationResult\<close> and \<open>Jurimetrics\<close> of the source exist for the
  compiler only: they are the predicates \<open>isTranslationResult\<close> and \<open>isJurimetrics\<close>
  below, which nothing enforces. What \<open>JSON.parse\<close> returns is typed \<open>any\<close> and is
  checked nowhere, so the cells for the current result and for the history hold whatever
  JSON value reached them. An object is the map of its own properties; the order of the
  properties is not modelled, and no statement depends on it.
\<close>

datatype json =
  JNull
| JBool bool
| JNumber real
| JString js_string
| JArray "json list"
| JObject "js_string \<rightharpoonup> json"

text \<open>
  \<open>property k v\<close> reads \<open>v?.k\<close> for a property name \<open>k\<close> that is neither an index nor
  inherited (the source reads \<open>originalText\<close> and \<open>translation\<close>): \<open>None\<close> is
  \<open>undefined\<close>.
\<close>

definition property :: "js_string \<Rightarrow> json \<Rightarrow> json option" where
  "property k v = (case v of JObject m \<Rightarrow> m k | _ \<Rightarrow> None)"

text \<open>
  The shapes that the source declares as \<open>Jurimetrics\<close> and \<open>TranslationResult\<close>, as
  predicates on run-time values. \<open>hasContent\<close> is the part of a \<open>TranslationResult\<close> that
  the collaborator is asked for: \<open>translation\<close>, \<open>summaryPoints\<close> and \<open>jurimetrics\<close>.
\<close>

definition isNumber :: "json option \<Rightarrow> bool" where
  "isNumber x = (case x of Some (JNumber n) \<Rightarrow> True | _ \<Rightarrow> False)"

definition isString :: "json option \<Rightarrow> bool" where
  "isString x = (case x of Some (JString s) \<Rightarrow> True | _ \<Rightarrow> False)"

definition isStringArray :: "json option \<Rightarrow> bool" where
  "isStringArray x =
     (case x of Some (JArray xs) \<Rightarrow> list_all (\<lambda>e. isString (Some e)) xs | _ \<Rightarrow> False)"

definition isJurimetrics :: "json option \<Rightarrow> bool" where
  "isJurimetrics x =
     (case x of
        Some v \<Rightarrow>
          isNumber (property (str ''probabilityOfSuccess'') v) \<and>
          isString (property (str ''estimatedDuration'') v) \<and>
          isStringArray (property (str ''positiveFactors'') v) \<and>
          isStringArray (property (str ''negativeFactors'') v)
      | None \<Rightarrow> False)"

definition hasContent :: "json \<Rightarrow> bool" where
  "hasContent v \<longleftrightarrow>
     isString (property (str ''translation'') v) \<and>
     isStringArray (property (str ''summaryPoints'') v) \<and>
     isJurimetrics (property (str ''jurimetrics'') v)"

definition isTranslationResult :: "json \<Rightarrow> bool" where
  "isTranslationResult v \<longleftrightarrow>
     isString (property (str ''id'') v) \<and>
     isNumber (property (str ''timestamp'') v) \<and>
     isString (property (str ''originalText'') v) \<and>
     hasContent v"

text \<open>
  The own enumerable properties that an object spread \<open>{...v}\<close> copies: those of an
  object, the elements of an array and the code units of a string under their indices,
  none for \<open>null\<close>, a boolean or a number.
\<close>

definition indexed :: "json list \<Rightarrow> (js_string \<rightharpoonup> json)" where
  "indexed xs = map_of (zip (map digits [0..<length xs]) xs)"

definition ownProperties :: "json \<Rightarrow> (js_string \<rightharpoonup> json)" where
  "ownProperties v =
     (case v of
        JObject m \<Rightarrow> m
      | JArray xs \<Rightarrow> indexed xs
      | JString cs \<Rightarrow> indexed (map (\<lambda>c. JString [c]) cs)
      | _ \<Rightarrow> Map.empty)"

text \<open>
  What an array spread \<open>[...v]\<close> iterates: the elements of an array, the code points of
  a string (a surrogate pair is one code point); any other value is not iterable and the
  spread throws a \<open>TypeError\<close>, which is \<open>None\<close>.
\<close>

fun codePoints :: "js_string \<Rightarrow> js_string list" where
  "codePoints (c # d # cs) =
     (if 0xD800 \<le> c \<and> c \<le> 0xDBFF \<and> 0xDC00 \<le> d \<and> d \<le> 0xDFFF
      then [c, d] # codePoints cs
      else [c] # codePoints (d # cs))"
| "codePoints [c] = [[c]]"
| "codePoints [] = []"

definition iterate :: "json \<Rightarrow> json list option" where
  "iterate v =
     (case v of
        JArray xs \<Rightarrow> Some xs
      | JString cs \<Rightarrow> Some (map JString (codePoints cs))
      | _ \<Rightarrow> None)"

section \<open>Data model\<close>

datatype View = Home | Result

datatype Role = user | model

record ChatMessage =
  role :: Role
  "text" :: js_string

text \<open>
  The SDK's chat object, as far as the application determines it: the model name and the
  system instruction it was created with.
\<close>

record Chat =
  chatModel :: js_string
  systemInstruction :: js_string

text \<open>
  An asynchronous call of the SDK either rejects or resolves with a response, of which the
  application reads the \<open>text\<close> only.
\<close>

datatype 'a outcome = Rejected | Resolved 'a

text \<open>
  Every invocation of the SDK is logged, in call order: \<open>ai.models.generateContent\<close>
  with model and prompt, \<open>ai.chats.create\<close> with model and system instruction,
  \<open>sendMessage\<close> with the chat it is called on and the message.
\<close>

datatype call =
  GenerateContent js_string js_string
| ChatsCreate js_string js_string
| SendMessage Chat js_string

text \<open>
  What the language and the browser provide is a parameter: \<open>JSON.parse\<close>, where
  \<open>None\<close> is a thrown \<open>SyntaxError\<close>; \<open>JSON.stringify\<close>; and the conversion of a value
  to a string that a template literal applies, where \<open>None\<close> is a thrown \<open>TypeError\<close>.
\<close>

record platform =
  JSON_parse :: "js_string \<Rightarrow> json option"
  JSON_stringify :: "json \<Rightarrow> js_string"
  ToString :: "json \<Rightarrow> js_string option"

text \<open>
  The state of the \<open>App\<close> component: its \<open>useState\<close> cells and the \<open>chatRef\<close> ref,
  together with the browser's \<open>localStorage\<close> and the log of SDK calls. The cell
  \<open>result\<close> is \<open>None\<close> for \<open>null\<close>. The cells of the simulated file upload take no part
  in translation, history or chat and are left out. \<open>updaterError\<close> is not a cell: it
  records that the updater passed to \<open>setTranslationHistory\<close> threw. React runs the
  updater while rendering, outside the handler's \<open>try\<close>, so the handler's \<open>catch\<close>
  never sees that error.
\<close>

record App =
  view :: View
  inputText :: js_string
  isLoading :: bool
  error :: js_string
  result :: "json option"
  translationHistory :: json
  isChatOpen :: bool
  chatHistory :: "ChatMessage list"
  chatInput :: js_string
  chatRef :: "Chat option"
  localStorage :: "js_string \<rightharpoonup> js_string"
  calls :: "call list"
  updaterError :: bool

definition historyKey :: js_string where
  "historyKey = str ''translationHistory''"

definition App_init :: "(js_string \<rightharpoonup> js_string) \<Rightarrow> App" where
  "App_init storage =
     \<lparr>view = Home, inputText = [], isLoading = False, error = [], result = None,
      translationHistory = JArray [], isChatOpen = False, chatHistory = [], chatInput = [],
      chatRef = None, localStorage = storage, calls = [], updaterError = False\<rparr>"

section \<open>Loading the history\<close>

text \<open>
  The mount effect. \<open>getItem\<close> gives \<open>null\<close> for an absent key; \<open>null\<close> and the empty
  string are falsy, so neither is parsed. Whatever \<open>JSON.parse\<close> returns becomes the
  history, unchecked. A throwing \<open>JSON.parse\<close> is caught and the entry removed.
\<close>

definition loadHistory :: "platform \<Rightarrow> App \<Rightarrow> App" where
  "loadHistory P s =
     (case localStorage s historyKey of
        None \<Rightarrow> s
      | Some storedHistory \<Rightarrow>
          if storedHistory = [] then s
          else (case JSON_parse P storedHistory of
                  Some v \<Rightarrow> s\<lparr>translationHistory := v\<rparr>
                | None \<Rightarrow> s\<lparr>localStorage := (localStorage s)(historyKey := None)\<rparr>))"

definition startup :: "platform \<Rightarrow> (js_string \<rightharpoonup> js_string) \<Rightarrow> App" where
  "startup P storage = loadHistory P (App_init storage)"

section \<open>Navigation\<close>

definition handleGoHome :: "App \<Rightarrow> App" where
  "handleGoHome s =
     s\<lparr>view := Home, result := None, chatHistory := [], error := [],
       isChatOpen := False, chatRef := None\<rparr>"

definition handleViewHistoryItem :: "json \<Rightarrow> App \<Rightarrow> App" where
  "handleViewHistoryItem item s =
     s\<lparr>result := Some item, isChatOpen := False, chatHistory := [], chatRef := None,
       view := Result\<rparr>"

definition handleClearHistory :: "App \<Rightarrow> App" where
  "handleClearHistory s =
     s\<lparr>translationHistory := JArray [],
       localStorage := (localStorage s)(historyKey := None)\<rparr>"

section \<open>Translation\<close>

definition translationModel :: js_string where
  "translationModel = str ''gemini-2.5-flash''"

definition prompt :: "js_string \<Rightarrow> js_string" where
  "prompt input =
     str ''O seguinte texto '' @ [0xE9] @ str '' um trecho de um documento jur'' @ [0xED]
     @ str ''dico brasileiro. Analise-o e forne'' @ [0xE7]
     @ str ''a: 1. Uma 'translation' (tradu'' @ [0xE7, 0xE3] @ str ''o) para portugu'' @ [0xEA]
     @ str ''s coloquial e simples, mantendo a formata'' @ [0xE7, 0xE3]
     @ str ''o original. 2. 'summaryPoints' (pontos principais) em uma lista. ''
     @ str ''3. Uma 'jurimetrics' (an'' @ [0xE1] @ str ''lise jurim'' @ [0xE9]
     @ str ''trica) simulada, contendo: 'probabilityOfSuccess' (um n'' @ [0xFA]
     @ str ''mero de 0 a 100), 'estimatedDuration' (uma string, ex: '6-12 meses'' @ [0x27]
     @ str ''), 'positiveFactors' (lista de fatores positivos), e 'negativeFactors'' @ [0x27]
     @ str '' (lista de fatores negativos).'' @ [0x0A, 0x0A] @ str ''Texto: '' @ [0x22]
     @ input @ [0x22]"

text \<open>
  The object literal of \<open>newResult\<close>: the parsed response is spread first, whatever it
  is, so the three properties written after it win over those the response carried
  under the same names.
\<close>

definition newResult :: "json \<Rightarrow> js_string \<Rightarrow> int \<Rightarrow> int \<Rightarrow> json" where
  "newResult parsedResult input now1 now2 =
     JObject ((ownProperties parsedResult)
       (str ''originalText'' \<mapsto> JString input,
        str ''id'' \<mapsto> JString (toString now1),
        str ''timestamp'' \<mapsto> JNumber (of_int now2)))"

text \<open>
  The updater passed to \<open>setTranslationHistory\<close>: it runs on the history of the moment,
  writes the storage and returns the new history. When the history is not iterable the
  spread throws before anything is written. The write to the storage is taken to
  succeed.
\<close>

definition recordHistory :: "platform \<Rightarrow> json \<Rightarrow> App \<Rightarrow> App" where
  "recordHistory P r s =
     (case iterate (translationHistory s) of
        None \<Rightarrow> s\<lparr>updaterError := True\<rparr>
      | Some prev \<Rightarrow>
          (let updatedHistory = JArray (take 50 (r # prev))
           in s\<lparr>localStorage := (localStorage s)(historyKey \<mapsto> JSON_stringify P updatedHistory),
                translationHistory := updatedHistory\<rparr>))"

text \<open>
  \<open>handleTranslate\<close> is asynchronous. \<open>handleTranslate_pending\<close> is the state in which it
  awaits the collaborator, the request sent; \<open>handleTranslate_settle\<close> is the rest of the
  handler, run when the call settles: the \<open>try\<close> block from the parse on, the \<open>catch\<close>
  and the \<open>finally\<close>. It reads \<open>inputText\<close> from the closure of the render in which
  the handler was started, and the clock twice.
\<close>

definition handleTranslate_pending :: "App \<Rightarrow> App" where
  "handleTranslate_pending s =
     s\<lparr>isLoading := True, error := [], result := None,
       calls := calls s @ [GenerateContent translationModel (prompt (inputText s))]\<rparr>"

definition handleTranslate_settle ::
    "platform \<Rightarrow> js_string \<Rightarrow> js_string outcome \<Rightarrow> int \<Rightarrow> int \<Rightarrow> App \<Rightarrow> App" where
  "handleTranslate_settle P input response now1 now2 s =
     (case (case response of Rejected \<Rightarrow> None | Resolved t \<Rightarrow> JSON_parse P t) of
        Some parsedResult \<Rightarrow>
          (let r = newResult parsedResult input now1 now2
           in (recordHistory P r (s\<lparr>result := Some r\<rparr>))\<lparr>view := Result\<rparr>)
      | None \<Rightarrow>
          s\<lparr>error := str ''Ocorreu um erro ao traduzir o texto. Tente novamente.''\<rparr>)
     \<lparr>isLoading := False\<rparr>"

definition handleTranslate :: "platform \<Rightarrow> js_string outcome \<Rightarrow> int \<Rightarrow> int \<Rightarrow> App \<Rightarrow> App" where
  "handleTranslate P response now1 now2 s =
     (if trim (inputText s) = []
      then s\<lparr>error := str ''Por favor, insira um texto para traduzir.''\<rparr>
      else handleTranslate_settle P (inputText s) response now1 now2
             (handleTranslate_pending s))"

section \<open>Chat\<close>

text \<open>
  A template literal converts each interpolated value to a string: \<open>undefined\<close> gives
  the text \<open>undefined\<close>, any other value what the platform's conversion gives, which may
  throw. \<open>chatSystemInstruction\<close> is \<open>None\<close> when a conversion throws.
\<close>

definition systemInstructionPrefix :: js_string where
  "systemInstructionPrefix =
     str ''Voc'' @ [0xEA] @ str '' '' @ [0xE9]
     @ str '' 'Lex', um assistente de IA especializado em direito processual ''
     @ str ''brasileiro. Sua miss'' @ [0xE3] @ str ''o '' @ [0xE9] @ str '' ajudar cidad''
     @ [0xE3] @ str ''os leigos a entenderem seus processos judiciais. Use um tom emp''
     @ [0xE1] @ str ''tico e claro. Baseie respostas em probabilidades e estimativas ''
     @ str ''de tempo (simulando dados de jurimetria), sempre deixando claro '' @ str ''que s''
     @ [0xE3] @ str ''o estimativas. O contexto '' @ [0xE9] @ str '' o texto: '' @ [0x27]"

definition interpolate :: "platform \<Rightarrow> json option \<Rightarrow> js_string option" where
  "interpolate P x = (case x of None \<Rightarrow> Some (str ''undefined'') | Some v \<Rightarrow> ToString P v)"

definition chatSystemInstruction :: "platform \<Rightarrow> json option \<Rightarrow> js_string option" where
  "chatSystemInstruction P r =
     (case interpolate P (case r of None \<Rightarrow> None | Some v \<Rightarrow> property (str ''originalText'') v) of
        None \<Rightarrow> None
      | Some original \<Rightarrow>
          (case interpolate P (case r of None \<Rightarrow> None | Some v \<Rightarrow> property (str ''translation'') v) of
             None \<Rightarrow> None
           | Some translated \<Rightarrow>
               Some (systemInstructionPrefix
                     @ original
                     @ [0x27] @ str '', traduzido como: '' @ [0x27]
                     @ translated
                     @ [0x27] @ str ''.'')))"

definition firstPrompt :: js_string where
  "firstPrompt =
     str ''Baseado no texto jur'' @ [0xED]
     @ str ''dico que analisei, inicie a conversa de forma proativa. Por exemplo, ''
     @ str ''pergunte se quero saber os pr'' @ [0xF3]
     @ str ''ximos passos ou as chances de um resultado favor'' @ [0xE1]
     @ str ''vel. Seja breve e amig'' @ [0xE1] @ str ''vel.''"

definition startFallback :: ChatMessage where
  "startFallback =
     \<lparr>role = model,
      text = str ''Desculpe, n'' @ [0xE3] @ str ''o consegui iniciar o chat. Tente novamente.''\<rparr>"

definition errorMessage :: ChatMessage where
  "errorMessage =
     \<lparr>role = model,
      text = str ''Desculpe, n'' @ [0xE3]
             @ str ''o consegui processar sua pergunta. Tente novamente.''\<rparr>"

definition newChat :: "platform \<Rightarrow> App \<Rightarrow> Chat option" where
  "newChat P s =
     map_option (\<lambda>instruction. \<lparr>chatModel = str ''gemini-2.5-flash'', systemInstruction = instruction\<rparr>)
       (chatSystemInstruction P (result s))"

text \<open>
  \<open>handleStartChat\<close> returns at once when a chat object exists and the chat has messages.
  Otherwise it builds the system instruction and creates the chat object, both
  synchronous and inside the \<open>try\<close>: the first throws when \<open>newChat\<close> is \<open>None\<close>, the
  second when \<open>created\<close> is \<open>False\<close>. Then it sends the first prompt, which may reject.
  All three failures end in the same \<open>catch\<close>. \<open>handleStartChat_pending\<close> is the state
  awaiting the first reply, \<open>handleStartChat_caught\<close> what \<open>catch\<close> and \<open>finally\<close> leave
  of a failure before the first prompt is sent.
\<close>

definition handleStartChat_pending :: "Chat \<Rightarrow> App \<Rightarrow> App" where
  "handleStartChat_pending c s =
     s\<lparr>isChatOpen := True, isLoading := True, chatHistory := [], chatRef := Some c,
       calls := calls s @ [ChatsCreate (chatModel c) (systemInstruction c),
                           SendMessage c firstPrompt]\<rparr>"

definition handleStartChat_settle :: "js_string outcome \<Rightarrow> App \<Rightarrow> App" where
  "handleStartChat_settle response s =
     (case response of
        Resolved t \<Rightarrow> s\<lparr>chatHistory := [\<lparr>role = model, text = t\<rparr>]\<rparr>
      | Rejected \<Rightarrow> s\<lparr>chatHistory := [startFallback]\<rparr>)
     \<lparr>isLoading := False\<rparr>"

definition handleStartChat_caught :: "App \<Rightarrow> App" where
  "handleStartChat_caught s =
     s\<lparr>isChatOpen := True, chatHistory := [startFallback], isLoading := False\<rparr>"

definition handleStartChat :: "platform \<Rightarrow> bool \<Rightarrow> js_string outcome \<Rightarrow> App \<Rightarrow> App" where
  "handleStartChat P created response s =
     (if chatRef s \<noteq> None \<and> length (chatHistory s) > 0
      then s\<lparr>isChatOpen := True\<rparr>
      else (case newChat P s of
              None \<Rightarrow> handleStartChat_caught s
            | Some c \<Rightarrow>
                if created
                then handleStartChat_settle response (handleStartChat_pending c s)
                else (handleStartChat_caught s)
                       \<lparr>calls := calls s @ [ChatsCreate (chatModel c) (systemInstruction c)]\<rparr>))"

definition handleCloseChat :: "App \<Rightarrow> App" where
  "handleCloseChat s = s\<lparr>isChatOpen := False\<rparr>"

text \<open>
  \<open>handleSendMessage\<close> does nothing for a blank input, while loading, or without a chat
  object. Otherwise the user's message is appended before the call is made.
\<close>

definition handleSendMessage_pending :: "Chat \<Rightarrow> App \<Rightarrow> App" where
  "handleSendMessage_pending c s =
     s\<lparr>chatHistory := chatHistory s @ [\<lparr>role = user, text = chatInput s\<rparr>],
       chatInput := [], isLoading := True,
       calls := calls s @ [SendMessage c (chatInput s)]\<rparr>"

definition handleSendMessage_settle :: "js_string outcome \<Rightarrow> App \<Rightarrow> App" where
  "handleSendMessage_settle response s =
     (case response of
        Resolved t \<Rightarrow> s\<lparr>chatHistory := chatHistory s @ [\<lparr>role = model, text = t\<rparr>]\<rparr>
      | Rejected \<Rightarrow> s\<lparr>chatHistory := chatHistory s @ [errorMessage]\<rparr>)
     \<lparr>isLoading := False\<rparr>"

definition handleSendMessage :: "js_string outcome \<Rightarrow> App \<Rightarrow> App" where
  "handleSendMessage response s =
     (case chatRef s of
        None \<Rightarrow> s
      | Some c \<Rightarrow>
          if trim (chatInput s) = [] \<or> isLoading s then s
          else handleSendMessage_settle response (handleSendMessage_pending c s))"

section \<open>Input fields and runs of translations\<close>

definition setInputText :: "js_string \<Rightarrow> App \<Rightarrow> App" where
  "setInputText t s = s\<lparr>inputText := t\<rparr>"

definition setChatInput :: "js_string \<Rightarrow> App \<Rightarrow> App" where
  "setChatInput t s = s\<lparr>chatInput := t\<rparr>"

text \<open>
  A submission is what one translation consumes from outside: the text the user typed,
  the text of the collaborator's response and the two readings of the clock.
  \<open>translate_each\<close> runs the submissions in order, each response resolving;
  \<open>produced\<close> is the result a submission creates, if it creates one.
\<close>

type_synonym submission = "js_string \<times> js_string \<times> int \<times> int"

fun translate_each :: "platform \<Rightarrow> submission list \<Rightarrow> App \<Rightarrow> App" where
  "translate_each P [] s = s"
| "translate_each P ((input, t, now1, now2) # rest) s =
     translate_each P rest (handleTranslate P (Resolved t) now1 now2 (setInputText input s))"

fun produced :: "platform \<Rightarrow> submission \<Rightarrow> json option" where
  "produced P (input, t, now1, now2) =
     (if trim input = [] then None
      else map_option (\<lambda>p. newResult p input now1 now2) (JSON_parse P t))"

text \<open>The message that follows the user's in the chat, by the outcome of the call.\<close>

definition reply :: "js_string outcome \<Rightarrow> ChatMessage" where
  "reply response =
     (case response of
        Resolved t \<Rightarrow> \<lparr>role = model, text = t\<rparr>
      | Rejected \<Rightarrow> errorMessage)"

section \<open>Sample inputs\<close>

text \<open>
  Concrete inputs for the instances below. \<open>samplePlatform\<close> is a small stand-in for
  the platform: its \<open>JSON.parse\<close> knows six texts and rejects every other, the empty text
  among them, as \<open>JSON.parse\<close> does. \<open>sampleText\<close> is a response of the expected shape,
  which carries stale \<open>id\<close> and \<open>originalText\<close> properties besides.
\<close>

definition quoted :: "string \<Rightarrow> js_string" where
  "quoted s = [0x22] @ str s @ [0x22]"

definition sampleText :: js_string where
  "sampleText =
     str ''{'' @ quoted ''translation'' @ str '':'' @ quoted ''ok'' @ str '',''
     @ quoted ''summaryPoints'' @ str '':[],''
     @ quoted ''jurimetrics'' @ str '':{''
     @ quoted ''probabilityOfSuccess'' @ str '':70,''
     @ quoted ''estimatedDuration'' @ str '':'' @ quoted ''6-12 meses'' @ str '',''
     @ quoted ''positiveFactors'' @ str '':[],''
     @ quoted ''negativeFactors'' @ str '':[]},''
     @ quoted ''id'' @ str '':'' @ quoted ''stale'' @ str '',''
     @ quoted ''originalText'' @ str '':'' @ quoted ''stale'' @ str ''}''"

definition sampleJurimetrics :: json where
  "sampleJurimetrics =
     JObject [str ''probabilityOfSuccess'' \<mapsto> JNumber 70,
              str ''estimatedDuration'' \<mapsto> JString (str ''6-12 meses''),
              str ''positiveFactors'' \<mapsto> JArray [],
              str ''negativeFactors'' \<mapsto> JArray []]"

definition sampleParsed :: json where
  "sampleParsed =
     JObject [str ''translation'' \<mapsto> JString (str ''ok''),
              str ''summaryPoints'' \<mapsto> JArray [],
              str ''jurimetrics'' \<mapsto> sampleJurimetrics,
              str ''id'' \<mapsto> JString (str ''stale''),
              str ''originalText'' \<mapsto> JString (str ''stale'')]"

definition emptyObject :: json where
  "emptyObject = JObject Map.empty"

definition sampleStringify :: "json \<Rightarrow> js_string" where
  "sampleStringify v =
     (case v of
        JArray xs \<Rightarrow>
          concat (map (\<lambda>x. 0x23 # (case property (str ''id'') x of
                                      Some (JString i) \<Rightarrow> i
                                    | _ \<Rightarrow> [])) xs)
      | _ \<Rightarrow> [])"

definition samplePlatform :: platform where
  "samplePlatform =
     \<lparr>JSON_parse =
        (\<lambda>t. if t = sampleText then Some sampleParsed
             else if t = str ''{}'' then Some emptyObject
             else if t = str ''null'' then Some JNull
             else if t = str ''[]'' then Some (JArray [])
             else if t = str ''[{}]'' then Some (JArray [emptyObject])
             else if t = str ''42'' then Some (JNumber 42)
             else None),
      JSON_stringify = sampleStringify,
      ToString = (\<lambda>v. case v of JString s \<Rightarrow> Some s | _ \<Rightarrow> None)\<rparr>"

definition sampleItem :: json where
  "sampleItem = newResult sampleParsed (str ''Vistos.'') 1730000000000 1730000000001"

definition sampleChat :: Chat where
  "sampleChat =
     \<lparr>chatModel = str ''gemini-2.5-flash'',
      systemInstruction =
        systemInstructionPrefix @ str ''Vistos.'' @ [0x27] @ str '', traduzido como: ''
        @ [0x27] @ str ''ok'' @ [0x27] @ str ''.''\<rparr>"

definition sampleApp :: App where
  "sampleApp = setInputText (str '' Vistos. '') (App_init Map.empty)"

definition blankApp :: App where
  "blankApp = setInputText [0x20, 0x0A, 0xA0] (App_init Map.empty)"

definition viewedApp :: App where
  "viewedApp =
     setInputText (str ''Vistos.'') (handleViewHistoryItem sampleItem (App_init Map.empty))"


definition sampleSubmissions :: "nat \<Rightarrow> submission list" where
  "sampleSubmissions n =
     map (\<lambda>i. (str ''Vistos.'', sampleText, int i, int i + 1)) [0..<n]"

definition sampleResults :: "nat \<Rightarrow> json list" where
  "sampleResults n =
     map (\<lambda>i. newResult sampleParsed (str ''Vistos.'') (int i) (int i + 1)) [0..<n]"

definition emptyEntryStorage :: "js_string \<rightharpoonup> js_string" where
  "emptyEntryStorage = [historyKey \<mapsto> []]"

definition brokenEntryStorage :: "js_string \<rightharpoonup> js_string" where
  "brokenEntryStorage = [historyKey \<mapsto> str ''[{'']"

definition oneEntryStorage :: "js_string \<rightharpoonup> js_string" where
  "oneEntryStorage = [historyKey \<mapsto> str ''[{}]'']"

definition nullEntryStorage :: "js_string \<rightharpoonup> js_string" where
  "nullEntryStorage = [historyKey \<mapsto> str ''null'']"

section \<open>Facts about the string functions and the handlers\<close>

lemma trim_empty_iff: "trim s = [] \<longleftrightarrow> (\<forall>c \<in> set s. isWhiteSpace c)"
proof
  assume t: "trim s = []"
  have "dropWhile isWhiteSpace s = []"
  proof (rule ccontr)
    assume ne: "dropWhile isWhiteSpace s \<noteq> []"
    then have n: "\<not> isWhiteSpace (hd (dropWhile isWhiteSpace s))"
      by (rule hd_dropWhile)
    have m: "hd (dropWhile isWhiteSpace s) \<in> set (dropWhile isWhiteSpace s)"
      using ne by (rule hd_in_set)
    from t have "dropWhile isWhiteSpace (rev (dropWhile isWhiteSpace s)) = []"
      unfolding trim_def by (simp only: rev_is_Nil_conv)
    then have "\<forall>c \<in> set (rev (dropWhile isWhiteSpace s)). isWhiteSpace c"
      by (simp only: dropWhile_eq_Nil_conv)
    then have "\<forall>c \<in> set (dropWhile isWhiteSpace s). isWhiteSpace c"
      by (simp only: set_rev)
    with n m show False
      by blast
  qed
  then show "\<forall>c \<in> set s. isWhiteSpace c"
    by (simp only: dropWhile_eq_Nil_conv)
next
  assume "\<forall>c \<in> set s. isWhiteSpace c"
  then have "dropWhile isWhiteSpace s = []"
    by (simp only: dropWhile_eq_Nil_conv)
  then show "trim s = []"
    by (simp only: trim_def dropWhile.simps rev.simps)
qed

lemma sample_trims:
  "trim (str '' Vistos. '') = str ''Vistos.''"
  "trim (str ''Vistos.'') = str ''Vistos.''"
  "trim (str ''Quais os prazos?'') = str ''Quais os prazos?''"
  "trim (str ''Oi'') = str ''Oi''"
  "trim [0x20, 0x0A, 0xA0] = []"
  by (simp_all add: trim_def str_def isWhiteSpace_def)

lemma sample_nonempty:
  "str ''Vistos.'' \<noteq> []" "str ''Quais os prazos?'' \<noteq> []" "str ''Oi'' \<noteq> []"
  "str ''[{'' \<noteq> []" "str ''[{}]'' \<noteq> []" "str ''null'' \<noteq> []"
  by (simp_all add: str_def)

lemma sample_parse:
  "JSON_parse samplePlatform sampleText = Some sampleParsed"
  "JSON_parse samplePlatform (str ''{}'') = Some emptyObject"
  "JSON_parse samplePlatform (str ''null'') = Some JNull"
  "JSON_parse samplePlatform (str ''[{}]'') = Some (JArray [emptyObject])"
  "JSON_parse samplePlatform (str ''[{'') = None"
  "JSON_parse samplePlatform [] = None"
  by (simp_all add: samplePlatform_def sampleText_def quoted_def str_def)

lemma iterate_simps:
  "iterate (JArray xs) = Some xs"
  "iterate JNull = None"
  "iterate (JNumber x) = None"
  "iterate (JBool b) = None"
  "iterate (JObject m) = None"
  by (simp_all add: iterate_def)

text \<open>
  The three properties written by \<open>newResult\<close> are those of the call; every other
  property is the one the parsed response has.
\<close>

lemma newResult_properties:
  "property (str ''originalText'') (newResult p input now1 now2) = Some (JString input)"
  "property (str ''id'') (newResult p input now1 now2) = Some (JString (toString now1))"
  "property (str ''timestamp'') (newResult p input now1 now2) = Some (JNumber (of_int now2))"
  "k \<noteq> str ''originalText'' \<Longrightarrow> k \<noteq> str ''id'' \<Longrightarrow> k \<noteq> str ''timestamp'' \<Longrightarrow>
     property k (newResult p input now1 now2) = ownProperties p k"
  by (simp_all add: newResult_def property_def str_def)

text \<open>A response of the expected shape gives a result of the declared shape.\<close>

lemma newResult_shape:
  assumes "hasContent p"
  shows "isTranslationResult (newResult p input now1 now2)"
proof -
  from assms obtain m where p: "p = JObject m"
    by (cases p) (simp_all add: hasContent_def property_def isString_def)
  have keep: "property k (newResult p input now1 now2) = property k p"
    if "k \<noteq> str ''originalText''" "k \<noteq> str ''id''" "k \<noteq> str ''timestamp''" for k
  proof -
    have "property k (newResult p input now1 now2) = ownProperties p k"
      using that by (rule newResult_properties)
    then show ?thesis
      by (simp add: p ownProperties_def property_def)
  qed
  have "hasContent (newResult p input now1 now2)"
    using assms unfolding hasContent_def
    by (simp add: keep str_def)
  then show ?thesis
    by (simp add: isTranslationResult_def newResult_properties isString_def isNumber_def)
qed

text \<open>On a history that is not iterable the updater throws and writes nothing.\<close>

lemma recordHistory_not_iterable:
  "iterate (translationHistory s) = None \<Longrightarrow> recordHistory P r s = s\<lparr>updaterError := True\<rparr>"
  by (simp add: recordHistory_def)

text \<open>The collaborator is called by \<open>handleTranslate\<close> exactly when the input is not blank.\<close>

lemma translate_calls_iff:
  "calls (handleTranslate P response now1 now2 s) \<noteq> calls s \<longleftrightarrow> trim (inputText s) \<noteq> []"
  by (simp add: handleTranslate_def handleTranslate_settle_def handleTranslate_pending_def
      recordHistory_def Let_def split: option.split)

text \<open>A message is sent exactly when the three guards of \<open>handleSendMessage\<close> pass.\<close>

lemma send_calls_iff:
  "calls (handleSendMessage response s) \<noteq> calls s \<longleftrightarrow>
     chatRef s \<noteq> None \<and> \<not> isLoading s \<and> trim (chatInput s) \<noteq> []"
  by (auto simp: handleSendMessage_def handleSendMessage_settle_def
      handleSendMessage_pending_def split: option.split outcome.split)

text \<open>
  Only a successful translation and \<open>handleClearHistory\<close> write the history or the
  storage; navigation, the chat and the input fields leave both alone.
\<close>

lemma history_untouched:
  "translationHistory (handleGoHome s) = translationHistory s"
  "localStorage (handleGoHome s) = localStorage s"
  "translationHistory (handleViewHistoryItem item s) = translationHistory s"
  "localStorage (handleViewHistoryItem item s) = localStorage s"
  "translationHistory (handleStartChat P created response s) = translationHistory s"
  "localStorage (handleStartChat P created response s) = localStorage s"
  "translationHistory (handleCloseChat s) = translationHistory s"
  "localStorage (handleCloseChat s) = localStorage s"
  "translationHistory (handleSendMessage response s) = translationHistory s"
  "localStorage (handleSendMessage response s) = localStorage s"
  "translationHistory (setInputText t s) = translationHistory s"
  "localStorage (setInputText t s) = localStorage s"
  "translationHistory (setChatInput t s) = translationHistory s"
  "localStorage (setChatInput t s) = localStorage s"
  by (simp_all add: handleGoHome_def handleViewHistoryItem_def handleStartChat_def
      handleStartChat_settle_def handleStartChat_pending_def handleStartChat_caught_def
      handleCloseChat_def handleSendMessage_def handleSendMessage_settle_def
      handleSendMessage_pending_def setInputText_def setChatInput_def
      split: option.split outcome.split)

section \<open>Properties of the history store\<close>

lemma take_append_take: "take n (xs @ take n ys) = take n (xs @ ys)"
  by (simp add: min_def)

lemma recordHistory_effect:
  assumes "iterate (translationHistory s) = Some h0"
  shows "translationHistory (recordHistory P r s) = JArray (take 50 (r # h0))"
    and "localStorage (recordHistory P r s) historyKey
           = Some (JSON_stringify P (translationHistory (recordHistory P r s)))"
    and "updaterError (recordHistory P r s) = updaterError s"
  using assms by (simp_all add: recordHistory_def Let_def)

lemma translate_step:
  assumes "produced P (input, t, now1, now2) = Some r"
    and "iterate (translationHistory s) = Some h0"
  shows "translationHistory (handleTranslate P (Resolved t) now1 now2 (setInputText input s))
           = JArray (take 50 (r # h0))"
    and "localStorage (handleTranslate P (Resolved t) now1 now2 (setInputText input s)) historyKey
           = Some (JSON_stringify P (JArray (take 50 (r # h0))))"
    and "updaterError (handleTranslate P (Resolved t) now1 now2 (setInputText input s))
           = updaterError s"
  using assms
  by (auto simp: handleTranslate_def handleTranslate_settle_def handleTranslate_pending_def
      recordHistory_def setInputText_def Let_def split: if_splits)

lemma translate_each_take:
  "map (produced P) subs = map Some rs \<Longrightarrow> iterate (translationHistory s) = Some h0 \<Longrightarrow>
   \<exists>h. iterate (translationHistory (translate_each P subs s)) = Some h \<and>
       take 50 h = take 50 (rev rs @ h0)"
proof (induction subs arbitrary: s rs h0)
  case Nil
  then show ?case by simp
next
  case (Cons x subs)
  obtain input t now1 now2 where x: "x = (input, t, now1, now2)"
    by (cases x) auto
  from Cons.prems obtain r rs' where rs: "rs = r # rs'"
    and r: "produced P x = Some r" and rest: "map (produced P) subs = map Some rs'"
    by (cases rs) auto
  let ?s1 = "handleTranslate P (Resolved t) now1 now2 (setInputText input s)"
  have h1: "translationHistory ?s1 = JArray (take 50 (r # h0))"
    using translate_step(1) r Cons.prems(2) unfolding x by blast
  then have i1: "iterate (translationHistory ?s1) = Some (take 50 (r # h0))"
    by (simp add: iterate_def)
  from Cons.IH [OF rest i1] obtain h
    where h: "iterate (translationHistory (translate_each P subs ?s1)) = Some h"
      and t: "take 50 h = take 50 (rev rs' @ take 50 (r # h0))"
    by blast
  have "take 50 h = take 50 (rev rs' @ (r # h0))"
    unfolding t by (rule take_append_take)
  also have "rev rs' @ (r # h0) = rev rs @ h0"
    by (simp add: rs)
  finally have "take 50 h = take 50 (rev rs @ h0)" .
  with h show ?case
    by (simp add: x)
qed

lemma translate_each_stored:
  "map (produced P) subs = map Some rs \<Longrightarrow> subs \<noteq> [] \<Longrightarrow>
   iterate (translationHistory s) = Some h0 \<Longrightarrow>
   \<exists>h. translationHistory (translate_each P subs s) = JArray h \<and> length h \<le> 50 \<and>
       localStorage (translate_each P subs s) historyKey
         = Some (JSON_stringify P (translationHistory (translate_each P subs s))) \<and>
       updaterError (translate_each P subs s) = updaterError s"
proof (induction subs arbitrary: s rs h0)
  case Nil
  then show ?case by simp
next
  case (Cons x subs)
  obtain input t now1 now2 where x: "x = (input, t, now1, now2)"
    by (cases x) auto
  from Cons.prems obtain r rs' where rs: "rs = r # rs'"
    and r: "produced P x = Some r" and rest: "map (produced P) subs = map Some rs'"
    by (cases rs) auto
  let ?s1 = "handleTranslate P (Resolved t) now1 now2 (setInputText input s)"
  have step: "translationHistory ?s1 = JArray (take 50 (r # h0))"
    "localStorage ?s1 historyKey = Some (JSON_stringify P (JArray (take 50 (r # h0))))"
    "updaterError ?s1 = updaterError s"
    using translate_step [of P input t now1 now2 r s h0] r Cons.prems(3) unfolding x
    by blast+
  show ?case
  proof (cases "subs = []")
    case True
    then show ?thesis
      using step by (simp add: x)
  next
    case False
    have i1: "iterate (translationHistory ?s1) = Some (take 50 (r # h0))"
      using step(1) by (simp add: iterate_def)
    show ?thesis
      using Cons.IH [OF rest False i1] step(3) by (simp add: x)
  qed
qed

lemma sample_produced:
  "map (produced samplePlatform) (sampleSubmissions n) = map Some (sampleResults n)"
  by (simp add: sampleSubmissions_def sampleResults_def sample_parse sample_trims
      sample_nonempty)

text \<open>
  C1. On a history that is a sequence, recording a result puts it in front of the
  history, keeps the first 50 entries and writes exactly the new history to the storage.
  Hence, after any non-empty run of successful translations, started in any state whose
  history is a sequence, the history is the results of the run, newest first, followed by
  the earlier history, cut to 50 entries; the stored copy is the serialisation of the
  history in memory; and once the run has 50 translations or more, the history is exactly
  its 50 newest results.
\<close>

theorem history_bounded_newest_first:
  assumes "map (produced P) subs = map Some rs" and "subs \<noteq> []"
    and "iterate (translationHistory s) = Some h0"
  shows "translationHistory (recordHistory P r s) = JArray (take 50 (r # h0)) \<and>
         localStorage (recordHistory P r s) historyKey
           = Some (JSON_stringify P (translationHistory (recordHistory P r s))) \<and>
         translationHistory (translate_each P subs s) = JArray (take 50 (rev rs @ h0)) \<and>
         (\<exists>h. translationHistory (translate_each P subs s) = JArray h \<and> length h \<le> 50) \<and>
         localStorage (translate_each P subs s) historyKey
           = Some (JSON_stringify P (translationHistory (translate_each P subs s))) \<and>
         updaterError (translate_each P subs s) = updaterError s \<and>
         (50 \<le> length subs \<longrightarrow>
            translationHistory (translate_each P subs s) = JArray (take 50 (rev rs)) \<and>
            length (take 50 (rev rs)) = 50)"
proof -
  let ?s' = "translate_each P subs s"
  from translate_each_stored [OF assms] obtain h
    where h: "translationHistory ?s' = JArray h" and bound: "length h \<le> 50"
      and stored: "localStorage ?s' historyKey = Some (JSON_stringify P (translationHistory ?s'))"
      and flag: "updaterError ?s' = updaterError s"
    by blast
  from translate_each_take [OF assms(1) assms(3)] obtain h'
    where h': "iterate (translationHistory ?s') = Some h'"
      and t: "take 50 h' = take 50 (rev rs @ h0)"
    by blast
  have "h' = h"
    using h h' by (simp add: iterate_def)
  with t bound have "h = take 50 (rev rs @ h0)"
    by simp
  with h have eq: "translationHistory ?s' = JArray (take 50 (rev rs @ h0))"
    by simp
  have len: "length rs = length subs"
    using assms(1) by (metis length_map)
  have full: "translationHistory ?s' = JArray (take 50 (rev rs)) \<and> length (take 50 (rev rs)) = 50"
    if "50 \<le> length subs"
    using that eq len by simp
  have ex: "\<exists>h. translationHistory ?s' = JArray h \<and> length h \<le> 50"
    using h bound by blast
  show ?thesis
    using ex stored eq flag full recordHistory_effect [OF assms(3)] by blast
qed

theorem history_bounded_newest_first_witness:
  "map (produced samplePlatform) (sampleSubmissions 51) = map Some (sampleResults 51) \<and>
   sampleSubmissions 51 \<noteq> [] \<and>
   iterate (translationHistory sampleApp) = Some [] \<and>
   50 \<le> length (sampleSubmissions 51) \<and>
   translationHistory (translate_each samplePlatform (sampleSubmissions 51) sampleApp)
     = JArray (take 50 (rev (sampleResults 51))) \<and>
   length (take 50 (rev (sampleResults 51))) = 50 \<and>
   localStorage (translate_each samplePlatform (sampleSubmissions 51) sampleApp) historyKey
     = Some (JSON_stringify samplePlatform (JArray (take 50 (rev (sampleResults 51)))))"
proof -
  have h1: "map (produced samplePlatform) (sampleSubmissions 51) = map Some (sampleResults 51)"
    by (rule sample_produced)
  have h2: "sampleSubmissions 51 \<noteq> []"
    by (simp add: sampleSubmissions_def)
  have h3: "iterate (translationHistory sampleApp) = Some []"
    by (simp add: sampleApp_def setInputText_def App_init_def iterate_def)
  have h4: "50 \<le> length (sampleSubmissions 51)"
    by (simp add: sampleSubmissions_def)
  show ?thesis
    using history_bounded_newest_first [OF h1 h2 h3] h1 h2 h3 h4
    by metis
qed

section \<open>Properties of translation\<close>

lemma sample_inputs:
  "inputText sampleApp = str '' Vistos. ''"
  "translationHistory sampleApp = JArray []"
  "localStorage sampleApp = Map.empty"
  "inputText blankApp = [0x20, 0x0A, 0xA0]"
  "inputText viewedApp = str ''Vistos.''"
  "result viewedApp = Some sampleItem"
  "chatRef viewedApp = None"
  "chatHistory viewedApp = []"
  "calls viewedApp = []"
  "isLoading viewedApp = False"
  by (simp_all add: sampleApp_def blankApp_def viewedApp_def setInputText_def
      handleViewHistoryItem_def App_init_def)

lemma handleTranslate_parsed:
  assumes "trim (inputText s) \<noteq> []"
    and "JSON_parse P t = Some parsedResult"
    and "iterate (translationHistory s) = Some h"
  shows "handleTranslate P (Resolved t) now1 now2 s
           = s\<lparr>isLoading := False, error := [],
               result := Some (newResult parsedResult (inputText s) now1 now2),
               calls := calls s @ [GenerateContent translationModel (prompt (inputText s))],
               localStorage := (localStorage s)
                 (historyKey \<mapsto> JSON_stringify P
                    (JArray (newResult parsedResult (inputText s) now1 now2 # take 49 h))),
               translationHistory :=
                 JArray (newResult parsedResult (inputText s) now1 now2 # take 49 h),
               view := Result\<rparr>"
  using assms
  by (simp add: handleTranslate_def handleTranslate_settle_def handleTranslate_pending_def
      recordHistory_def Let_def)

text \<open>
  C2. When the input text is not blank, the collaborator's response resolves and parses,
  and the history is a sequence, the translation succeeds: the new result carries the
  input text as typed (untrimmed) as its original text, the first clock reading as id and
  the second as timestamp, whatever the response held under those names; it becomes the
  current result and the newest entry of the history, the view is the result view, no
  error is shown and the handler is no longer loading. When the response has the content
  asked for, the new result has the shape of a \<open>TranslationResult\<close>.
\<close>

theorem translate_success:
  assumes "trim (inputText s) \<noteq> []"
    and "JSON_parse P t = Some parsedResult"
    and "iterate (translationHistory s) = Some h"
  shows "result (handleTranslate P (Resolved t) now1 now2 s)
           = Some (newResult parsedResult (inputText s) now1 now2) \<and>
         property (str ''originalText'') (newResult parsedResult (inputText s) now1 now2)
           = Some (JString (inputText s)) \<and>
         property (str ''id'') (newResult parsedResult (inputText s) now1 now2)
           = Some (JString (toString now1)) \<and>
         property (str ''timestamp'') (newResult parsedResult (inputText s) now1 now2)
           = Some (JNumber (of_int now2)) \<and>
         translationHistory (handleTranslate P (Resolved t) now1 now2 s)
           = JArray (newResult parsedResult (inputText s) now1 now2 # take 49 h) \<and>
         view (handleTranslate P (Resolved t) now1 now2 s) = Result \<and>
         error (handleTranslate P (Resolved t) now1 now2 s) = [] \<and>
         isLoading (handleTranslate P (Resolved t) now1 now2 s) = False \<and>
         updaterError (handleTranslate P (Resolved t) now1 now2 s) = updaterError s \<and>
         (hasContent parsedResult \<longrightarrow>
            isTranslationResult (newResult parsedResult (inputText s) now1 now2))"
  using assms
  by (simp add: handleTranslate_parsed newResult_properties newResult_shape)

theorem translate_success_witness:
  "trim (inputText sampleApp) \<noteq> [] \<and>
   JSON_parse samplePlatform sampleText = Some sampleParsed \<and>
   iterate (translationHistory sampleApp) = Some [] \<and>
   property (str ''originalText'') sampleParsed = Some (JString (str ''stale'')) \<and>
   hasContent sampleParsed \<and>
   isTranslationResult
     (newResult sampleParsed (str '' Vistos. '') 1730000000000 1730000000001) \<and>
   result (handleTranslate samplePlatform (Resolved sampleText) 1730000000000 1730000000001
             sampleApp)
     = Some (newResult sampleParsed (str '' Vistos. '') 1730000000000 1730000000001) \<and>
   property (str ''originalText'')
       (newResult sampleParsed (str '' Vistos. '') 1730000000000 1730000000001)
     = Some (JString (str '' Vistos. '')) \<and>
   property (str ''id'')
       (newResult sampleParsed (str '' Vistos. '') 1730000000000 1730000000001)
     = Some (JString (str ''1730000000000'')) \<and>
   view (handleTranslate samplePlatform (Resolved sampleText) 1730000000000 1730000000001
           sampleApp)
     = Result"
proof -
  have h1: "trim (inputText sampleApp) \<noteq> []"
    by (simp add: sample_inputs sample_trims sample_nonempty)
  have h2: "JSON_parse samplePlatform sampleText = Some sampleParsed"
    by (rule sample_parse)
  have h3: "iterate (translationHistory sampleApp) = Some []"
    by (simp add: sample_inputs iterate_def)
  have h4: "property (str ''originalText'') sampleParsed = Some (JString (str ''stale''))"
    by (simp add: sampleParsed_def property_def str_def)
  have h5: "hasContent sampleParsed"
    by (simp add: hasContent_def isJurimetrics_def isString_def isStringArray_def isNumber_def
        property_def sampleParsed_def sampleJurimetrics_def str_def)
  have d: "toString 1730000000000 = str ''1730000000000''"
    by (simp add: toString_def str_def)
  show ?thesis
    using translate_success [OF h1 h2 h3, of 1730000000000 1730000000001] h1 h2 h3 h4 h5
    by (simp add: d sample_inputs)
qed

text \<open>
  C3 (amended). For a blank input the handler only sets the validation message: the
  collaborator is not called and nothing else changes. A rejected call and a response
  text that \<open>JSON.parse\<close> refuses end alike: in whatever state the call settles, only the
  one translation error message is set and the loading flag cleared; in a handler run
  on its own, history, storage and view are as before and there is no current result.
  However the call settles, the loading flag is off afterwards; so it is at the end of
  every handler run on an input that is not blank. The shape
  of a response that parses is not checked: whatever value it is, the handler takes the
  path of success, and on a history that is a sequence the result built from that value
  is set as current result, put in front of the history and persisted.
\<close>

theorem translate_error_contract:
  "(trim (inputText s) = [] \<longrightarrow>
      handleTranslate P response now1 now2 s
        = s\<lparr>error := str ''Por favor, insira um texto para traduzir.''\<rparr> \<and>
      calls (handleTranslate P response now1 now2 s) = calls s) \<and>
   ((case response of Rejected \<Rightarrow> None | Resolved t \<Rightarrow> JSON_parse P t) = None \<longrightarrow>
      handleTranslate_settle P input response now1 now2 settling
        = settling\<lparr>error := str ''Ocorreu um erro ao traduzir o texto. Tente novamente.'',
                    isLoading := False\<rparr>) \<and>
   (trim (inputText s) \<noteq> [] \<and>
    (case response of Rejected \<Rightarrow> None | Resolved t \<Rightarrow> JSON_parse P t) = None \<longrightarrow>
      error (handleTranslate P response now1 now2 s)
        = str ''Ocorreu um erro ao traduzir o texto. Tente novamente.'' \<and>
      translationHistory (handleTranslate P response now1 now2 s) = translationHistory s \<and>
      localStorage (handleTranslate P response now1 now2 s) = localStorage s \<and>
      result (handleTranslate P response now1 now2 s) = None \<and>
      view (handleTranslate P response now1 now2 s) = view s) \<and>
   isLoading (handleTranslate_settle P input response now1 now2 settling) = False \<and>
   (trim (inputText s) \<noteq> [] \<longrightarrow>
      isLoading (handleTranslate P response now1 now2 s) = False) \<and>
   (trim (inputText s) \<noteq> [] \<and> JSON_parse P t = Some parsedResult \<and>
    iterate (translationHistory s) = Some h \<longrightarrow>
      error (handleTranslate P (Resolved t) now1 now2 s) = [] \<and>
      view (handleTranslate P (Resolved t) now1 now2 s) = Result \<and>
      result (handleTranslate P (Resolved t) now1 now2 s)
        = Some (newResult parsedResult (inputText s) now1 now2) \<and>
      translationHistory (handleTranslate P (Resolved t) now1 now2 s)
        = JArray (newResult parsedResult (inputText s) now1 now2 # take 49 h) \<and>
      localStorage (handleTranslate P (Resolved t) now1 now2 s) historyKey
        = Some (JSON_stringify P
                  (JArray (newResult parsedResult (inputText s) now1 now2 # take 49 h))))"
  by (simp add: handleTranslate_def handleTranslate_settle_def handleTranslate_pending_def
      recordHistory_def Let_def split: option.split)

theorem translate_error_contract_witness:
  "trim (inputText blankApp) = [] \<and>
   handleTranslate samplePlatform (Resolved sampleText) 1 2 blankApp
     = blankApp\<lparr>error := str ''Por favor, insira um texto para traduzir.''\<rparr> \<and>
   trim (inputText sampleApp) \<noteq> [] \<and>
   JSON_parse samplePlatform (str ''[{'') = None \<and>
   error (handleTranslate samplePlatform (Resolved (str ''[{'')) 1 2 sampleApp)
     = str ''Ocorreu um erro ao traduzir o texto. Tente novamente.'' \<and>
   error (handleTranslate samplePlatform Rejected 1 2 sampleApp)
     = str ''Ocorreu um erro ao traduzir o texto. Tente novamente.'' \<and>
   translationHistory (handleTranslate samplePlatform Rejected 1 2 sampleApp) = JArray [] \<and>
   isLoading (handleTranslate samplePlatform Rejected 1 2 sampleApp) = False \<and>
   JSON_parse samplePlatform (str ''null'') = Some JNull \<and>
   iterate (translationHistory sampleApp) = Some [] \<and>
   error (handleTranslate samplePlatform (Resolved (str ''null'')) 1 2 sampleApp) = [] \<and>
   translationHistory (handleTranslate samplePlatform (Resolved (str ''null'')) 1 2 sampleApp)
     = JArray [newResult JNull (str '' Vistos. '') 1 2]"
proof -
  have h1: "trim (inputText blankApp) = []"
    by (simp add: sample_inputs sample_trims)
  have h2: "trim (inputText sampleApp) \<noteq> []"
    by (simp add: sample_inputs sample_trims sample_nonempty)
  have h3: "JSON_parse samplePlatform (str ''[{'') = None"
    by (rule sample_parse)
  have h4: "JSON_parse samplePlatform (str ''null'') = Some JNull"
    by (rule sample_parse)
  have h5: "iterate (translationHistory sampleApp) = Some []"
    by (simp add: sample_inputs iterate_def)
  show ?thesis
    using translate_error_contract [of blankApp samplePlatform "Resolved sampleText" 1 2]
      translate_error_contract [of sampleApp samplePlatform "Resolved (str ''[{'')" 1 2]
      translate_error_contract [of sampleApp samplePlatform Rejected 1 2]
      translate_error_contract
        [of sampleApp samplePlatform Rejected 1 2 _ _ "str ''null''" JNull "[]"]
      h1 h2 h3 h4 h5
    by (simp add: sample_inputs)
qed

text \<open>
  The claim as first stated, that a malformed response is a failure and leaves nothing
  stored, fails for a response that is valid JSON of the wrong shape: for the text of an
  empty object the handler shows no error, goes to the result view and stores and
  persists a result that has no translation, no summary points and no jurimetrics.
\<close>

theorem malformed_response_counterexample:
  "JSON_parse samplePlatform (str ''{}'') = Some emptyObject \<and>
   property (str ''translation'') emptyObject = None \<and>
   property (str ''summaryPoints'') emptyObject = None \<and>
   property (str ''jurimetrics'') emptyObject = None \<and>
   error (handleTranslate samplePlatform (Resolved (str ''{}'')) 1 2 sampleApp) = [] \<and>
   view (handleTranslate samplePlatform (Resolved (str ''{}'')) 1 2 sampleApp) = Result \<and>
   result (handleTranslate samplePlatform (Resolved (str ''{}'')) 1 2 sampleApp)
     = Some (newResult emptyObject (str '' Vistos. '') 1 2) \<and>
   translationHistory (handleTranslate samplePlatform (Resolved (str ''{}'')) 1 2 sampleApp)
     = JArray [newResult emptyObject (str '' Vistos. '') 1 2] \<and>
   property (str ''translation'') (newResult emptyObject (str '' Vistos. '') 1 2) = None \<and>
   localStorage (handleTranslate samplePlatform (Resolved (str ''{}'')) 1 2 sampleApp)
       historyKey
     = Some (JSON_stringify samplePlatform (JArray [newResult emptyObject (str '' Vistos. '') 1 2]))"
proof -
  have h1: "trim (inputText sampleApp) \<noteq> []"
    by (simp add: sample_inputs sample_trims sample_nonempty)
  have h2: "JSON_parse samplePlatform (str ''{}'') = Some emptyObject"
    by (rule sample_parse)
  have h3: "iterate (translationHistory sampleApp) = Some []"
    by (simp add: sample_inputs iterate_def)
  have e: "property (str ''translation'') emptyObject = None"
    "property (str ''summaryPoints'') emptyObject = None"
    "property (str ''jurimetrics'') emptyObject = None"
    by (simp_all add: emptyObject_def property_def)
  have n: "property (str ''translation'') (newResult emptyObject (str '' Vistos. '') 1 2) = None"
    by (simp add: newResult_def property_def emptyObject_def ownProperties_def str_def)
  show ?thesis
    using h2 e n
    by (simp add: handleTranslate_parsed [OF h1 h2 h3] sample_inputs)
qed

text \<open>
  C10. For an input that is not blank, the handler is its continuation run on the pending
  state, and in the pending state, the collaborator called, the current result is
  already none. A call that then fails, by rejection or by a response that does not
  parse, leaves the current result none: a result set before the call is not restored.
\<close>

theorem failed_translate_discards_result:
  assumes "trim (inputText s) \<noteq> []"
  shows "handleTranslate P response now1 now2 s
           = handleTranslate_settle P (inputText s) response now1 now2
               (handleTranslate_pending s) \<and>
         result (handleTranslate_pending s) = None \<and>
         calls (handleTranslate_pending s)
           = calls s @ [GenerateContent translationModel (prompt (inputText s))] \<and>
         ((case response of Rejected \<Rightarrow> None | Resolved t \<Rightarrow> JSON_parse P t) = None \<longrightarrow>
            result (handleTranslate P response now1 now2 s) = None)"
  using assms
  by (simp add: handleTranslate_def handleTranslate_settle_def handleTranslate_pending_def
      split: option.split)

theorem failed_translate_discards_result_witness:
  "trim (inputText viewedApp) \<noteq> [] \<and>
   result viewedApp = Some sampleItem \<and>
   result (handleTranslate_pending viewedApp) = None \<and>
   result (handleTranslate samplePlatform Rejected 1 2 viewedApp) = None"
proof -
  have h1: "trim (inputText viewedApp) \<noteq> []"
    by (simp add: sample_inputs sample_trims sample_nonempty)
  have h2: "result viewedApp = Some sampleItem"
    by (rule sample_inputs)
  have h3: "(case Rejected of Rejected \<Rightarrow> None | Resolved t \<Rightarrow> JSON_parse samplePlatform t)
              = None"
    by simp
  show ?thesis
    using failed_translate_discards_result [OF h1, of samplePlatform Rejected 1 2] h1 h2 h3
    by blast
qed

section \<open>Properties of the chat\<close>

lemma sample_newChat: "newChat samplePlatform viewedApp = Some sampleChat"
proof -
  have o: "property (str ''originalText'') sampleItem = Some (JString (str ''Vistos.''))"
    unfolding sampleItem_def by (rule newResult_properties)
  have "property (str ''translation'') sampleItem
          = ownProperties sampleParsed (str ''translation'')"
    unfolding sampleItem_def by (rule newResult_properties) (simp_all add: str_def)
  then have t: "property (str ''translation'') sampleItem = Some (JString (str ''ok''))"
    by (simp add: ownProperties_def sampleParsed_def str_def)
  show ?thesis
    by (simp add: newChat_def chatSystemInstruction_def interpolate_def sample_inputs o t
        samplePlatform_def sampleChat_def)
qed

lemma sample_chat:
  "chatRef (handleStartChat samplePlatform True response viewedApp) = Some sampleChat"
  "chatHistory (handleStartChat samplePlatform True (Resolved t) viewedApp)
     = [\<lparr>role = model, text = t\<rparr>]"
  "isLoading (handleStartChat samplePlatform True response viewedApp) = False"
  by (simp_all add: handleStartChat_def handleStartChat_settle_def handleStartChat_pending_def
      sample_newChat sample_inputs split: outcome.split)

lemma reopen_pending_calls:
  assumes "newChat P s = Some c"
  shows "calls (handleStartChat P True response (handleStartChat_pending c s))
           = calls s @ [ChatsCreate (chatModel c) (systemInstruction c),
                        SendMessage c firstPrompt,
                        ChatsCreate (chatModel c) (systemInstruction c),
                        SendMessage c firstPrompt]"
proof -
  have "newChat P (handleStartChat_pending c s) = Some c"
    using assms by (simp add: newChat_def handleStartChat_pending_def)
  moreover have "chatHistory (handleStartChat_pending c s) = []"
    by (simp add: handleStartChat_pending_def)
  ultimately have "handleStartChat P True response (handleStartChat_pending c s)
      = handleStartChat_settle response
          (handleStartChat_pending c (handleStartChat_pending c s))"
    by (simp add: handleStartChat_def)
  then show ?thesis
    by (simp add: handleStartChat_settle_def handleStartChat_pending_def split: outcome.split)
qed

text \<open>Hiding the chat window does not change what the next open does.\<close>

lemma open_after_hide:
  "handleStartChat P created response (handleCloseChat s) = handleStartChat P created response s"
  by (simp add: handleStartChat_def handleStartChat_settle_def handleStartChat_pending_def
      handleStartChat_caught_def handleCloseChat_def newChat_def
      split: option.split outcome.split)

text \<open>After an open, whatever its course, the chat is open and has a message.\<close>

lemma open_leaves_messages:
  "chatHistory (handleStartChat P created response s) \<noteq> []"
  "isChatOpen (handleStartChat P created response s)"
  by (simp_all add: handleStartChat_def handleStartChat_settle_def handleStartChat_pending_def
      handleStartChat_caught_def split: option.split outcome.split)

lemma open_fresh:
  assumes "chatRef s = None \<or> chatHistory s = []" and "newChat P s = Some c"
  shows "chatRef (handleStartChat P True response s) = Some c"
    and "calls (handleStartChat P True response s)
           = calls s @ [ChatsCreate (chatModel c) (systemInstruction c),
                        SendMessage c firstPrompt]"
  using assms
  by (auto simp: handleStartChat_def handleStartChat_settle_def handleStartChat_pending_def
      split: outcome.split)

text \<open>What a send does to the messages and the call log, by the guards of the handler.\<close>

lemma send_goes:
  assumes "chatRef s = Some c" and "\<not> isLoading s" and "trim t \<noteq> []"
  shows "chatHistory (handleSendMessage r (setChatInput t s))
           = chatHistory s @ [\<lparr>role = user, text = t\<rparr>, reply r]"
    and "calls (handleSendMessage r (setChatInput t s)) = calls s @ [SendMessage c t]"
  using assms
  by (auto simp: handleSendMessage_def handleSendMessage_settle_def
      handleSendMessage_pending_def setChatInput_def reply_def split: outcome.split)

lemma send_ignored:
  "chatRef s = None \<Longrightarrow> handleSendMessage r (setChatInput t s) = setChatInput t s"
  by (simp add: handleSendMessage_def setChatInput_def)

text \<open>A failed open, in the cells it writes and in the ref.\<close>

lemma open_failed:
  assumes "chatRef s = None \<or> chatHistory s = []"
    and "newChat P s = None \<or> \<not> created \<or> response = Rejected"
  shows "chatHistory (handleStartChat P created response s) = [startFallback]"
    and "isChatOpen (handleStartChat P created response s)"
    and "\<not> isLoading (handleStartChat P created response s)"
    and "error (handleStartChat P created response s) = error s"
    and "view (handleStartChat P created response s) = view s"
    and "result (handleStartChat P created response s) = result s"
    and "newChat P s = Some c \<Longrightarrow> created \<Longrightarrow>
           chatRef (handleStartChat P created response s) = Some c"
    and "newChat P s = None \<or> \<not> created \<Longrightarrow>
           chatRef (handleStartChat P created response s) = chatRef s"
  using assms
  by (auto simp: handleStartChat_def handleStartChat_settle_def handleStartChat_pending_def
      handleStartChat_caught_def split: option.split outcome.split)

lemma open_fresh_not_loading:
  assumes "chatRef s = None \<or> chatHistory s = []"
  shows "\<not> isLoading (handleStartChat P created response s)"
  using assms
  by (auto simp: handleStartChat_def handleStartChat_settle_def handleStartChat_pending_def
      handleStartChat_caught_def split: option.split outcome.split)

text \<open>
  C4 (amended). In whatever state the rejection of the first prompt arrives, the messages
  become the one fallback message and the loading flag is cleared, nothing else. When
  opening the chat is not answered by an existing session and fails, the handler does
  not fail: the messages are exactly the one fallback message, of role model, the chat
  is open, the loading flag is off, and error and view are as before.
  If the chat object was created and the first prompt failed, the chat object is kept
  and any message that is not blank can be sent afterwards. If the creation failed (the
  system instruction could not be built or the constructor threw), the ref is left as
  it was. Where it held no chat object, every send afterwards is ignored, and an open
  that then creates the chat object stores it, after which messages can be sent. Where
  it still held a chat object from before, messages that are not blank go to that one.
\<close>

theorem chat_open_failure_fallback:
  assumes "chatRef s = None \<or> chatHistory s = []"
    and "newChat P s = None \<or> \<not> created \<or> response = Rejected"
  shows "handleStartChat_settle Rejected settling
           = settling\<lparr>chatHistory := [startFallback], isLoading := False\<rparr> \<and>
         chatHistory (handleStartChat P created response s) = [startFallback] \<and>
         role startFallback = model \<and>
         isChatOpen (handleStartChat P created response s) \<and>
         \<not> isLoading (handleStartChat P created response s) \<and>
         error (handleStartChat P created response s) = error s \<and>
         view (handleStartChat P created response s) = view s \<and>
         (\<forall>c. newChat P s = Some c \<and> created \<longrightarrow>
            chatRef (handleStartChat P created response s) = Some c \<and>
            (\<forall>t r. trim t \<noteq> [] \<longrightarrow>
               chatHistory (handleSendMessage r
                   (setChatInput t (handleStartChat P created response s)))
                 = [startFallback, \<lparr>role = user, text = t\<rparr>, reply r] \<and>
               calls (handleSendMessage r
                   (setChatInput t (handleStartChat P created response s)))
                 = calls (handleStartChat P created response s) @ [SendMessage c t])) \<and>
         (newChat P s = None \<or> \<not> created \<longrightarrow>
            chatRef (handleStartChat P created response s) = chatRef s \<and>
            (chatRef s = None \<longrightarrow>
               (\<forall>t r. handleSendMessage r
                    (setChatInput t (handleStartChat P created response s))
                  = setChatInput t (handleStartChat P created response s)) \<and>
               (\<forall>c r' t r. newChat P s = Some c \<and> trim t \<noteq> [] \<longrightarrow>
                  chatRef (handleStartChat P True r'
                      (handleStartChat P created response s)) = Some c \<and>
                  calls (handleSendMessage r
                      (setChatInput t (handleStartChat P True r'
                         (handleStartChat P created response s))))
                    = calls (handleStartChat P True r'
                        (handleStartChat P created response s)) @ [SendMessage c t])) \<and>
            (\<forall>c t r. chatRef s = Some c \<and> trim t \<noteq> [] \<longrightarrow>
               calls (handleSendMessage r
                   (setChatInput t (handleStartChat P created response s)))
                 = calls (handleStartChat P created response s) @ [SendMessage c t]))"
proof -
  let ?o = "handleStartChat P created response s"
  note f = open_failed [OF assms]
  have kept: "chatRef ?o = Some c \<and>
      (\<forall>t r. trim t \<noteq> [] \<longrightarrow>
         chatHistory (handleSendMessage r (setChatInput t ?o))
           = [startFallback, \<lparr>role = user, text = t\<rparr>, reply r] \<and>
         calls (handleSendMessage r (setChatInput t ?o)) = calls ?o @ [SendMessage c t])"
    if "newChat P s = Some c" "created" for c
  proof -
    have c: "chatRef ?o = Some c"
      using that by (rule f(7))
    show ?thesis
      using c send_goes [OF c f(3)] f(1) by simp
  qed
  have ignored: "handleSendMessage r (setChatInput t ?o) = setChatInput t ?o"
    if "newChat P s = None \<or> \<not> created" "chatRef s = None" for t r
    using that f(8) by (simp add: send_ignored)
  have later: "chatRef (handleStartChat P True r' ?o) = Some c \<and>
      calls (handleSendMessage r (setChatInput t (handleStartChat P True r' ?o)))
        = calls (handleStartChat P True r' ?o) @ [SendMessage c t]"
    if "newChat P s = None \<or> \<not> created" "chatRef s = None" "newChat P s = Some c"
      "trim t \<noteq> []" for c r' t r
  proof -
    have none: "chatRef ?o = None \<or> chatHistory ?o = []"
      using that(1,2) f(8) by simp
    have same: "newChat P ?o = Some c"
      using that(3) f(6) by (simp add: newChat_def)
    have c: "chatRef (handleStartChat P True r' ?o) = Some c"
      using none same by (rule open_fresh(1))
    have l: "\<not> isLoading (handleStartChat P True r' ?o)"
      using none by (rule open_fresh_not_loading)
    show ?thesis
      using c send_goes(2) [OF c l that(4)] by simp
  qed
  have stale: "calls (handleSendMessage r (setChatInput t ?o)) = calls ?o @ [SendMessage c t]"
    if "newChat P s = None \<or> \<not> created" "chatRef s = Some c" "trim t \<noteq> []" for c t r
  proof -
    have c: "chatRef ?o = Some c"
      using that(1,2) f(8) by simp
    show ?thesis
      using c f(3) that(3) by (rule send_goes(2))
  qed
  have m: "role startFallback = model"
    by (simp add: startFallback_def)
  have settled: "handleStartChat_settle Rejected settling
      = settling\<lparr>chatHistory := [startFallback], isLoading := False\<rparr>"
    by (simp add: handleStartChat_settle_def)
  show ?thesis
    using settled f(1-5) f(8) m kept ignored later stale by blast
qed

theorem chat_open_failure_fallback_witness:
  "(chatRef viewedApp = None \<or> chatHistory viewedApp = []) \<and>
   newChat samplePlatform viewedApp = Some sampleChat \<and>
   chatHistory (handleStartChat samplePlatform True Rejected viewedApp) = [startFallback] \<and>
   chatHistory (handleStartChat samplePlatform False Rejected viewedApp) = [startFallback] \<and>
   chatRef (handleStartChat samplePlatform True Rejected viewedApp) = Some sampleChat \<and>
   chatRef (handleStartChat samplePlatform False Rejected viewedApp) = None \<and>
   trim (str ''Oi'') \<noteq> [] \<and>
   chatHistory (handleSendMessage (Resolved (str ''ok''))
       (setChatInput (str ''Oi'') (handleStartChat samplePlatform True Rejected viewedApp)))
     = [startFallback, \<lparr>role = user, text = str ''Oi''\<rparr>, \<lparr>role = model, text = str ''ok''\<rparr>] \<and>
   handleSendMessage (Resolved (str ''ok''))
       (setChatInput (str ''Oi'') (handleStartChat samplePlatform False Rejected viewedApp))
     = setChatInput (str ''Oi'') (handleStartChat samplePlatform False Rejected viewedApp)"
proof -
  have h1: "chatRef viewedApp = None \<or> chatHistory viewedApp = []"
    by (simp add: sample_inputs)
  have h2: "trim (str ''Oi'') \<noteq> []"
    by (simp add: sample_trims sample_nonempty)
  have r: "reply (Resolved (str ''ok'')) = \<lparr>role = model, text = str ''ok''\<rparr>"
    by (simp add: reply_def)
  show ?thesis
    using chat_open_failure_fallback [OF h1, of samplePlatform True Rejected]
      chat_open_failure_fallback [OF h1, of samplePlatform False Rejected]
      h1 h2 r sample_newChat
    by (simp add: sample_inputs)
qed

text \<open>
  The claim as first stated, that the session is usable after any failure of the open,
  fails when the chat object cannot be created: on a freshly viewed result the open
  leaves the fallback message and no chat object, and a message that is not blank,
  submitted afterwards, changes nothing, the user's message included.
\<close>

theorem chat_open_creation_failure_counterexample:
  "chatHistory (handleStartChat samplePlatform False Rejected viewedApp) = [startFallback] \<and>
   chatRef (handleStartChat samplePlatform False Rejected viewedApp) = None \<and>
   isLoading (handleStartChat samplePlatform False Rejected viewedApp) = False \<and>
   trim (str ''Oi'') \<noteq> [] \<and>
   handleSendMessage (Resolved (str ''ok''))
       (setChatInput (str ''Oi'') (handleStartChat samplePlatform False Rejected viewedApp))
     = setChatInput (str ''Oi'') (handleStartChat samplePlatform False Rejected viewedApp) \<and>
   chatHistory (handleSendMessage (Resolved (str ''ok''))
       (setChatInput (str ''Oi'') (handleStartChat samplePlatform False Rejected viewedApp)))
     = [startFallback]"
  by (simp add: handleStartChat_def handleStartChat_caught_def handleSendMessage_def
      setChatInput_def sample_newChat sample_inputs sample_trims sample_nonempty)

text \<open>
  C5 (amended). When a chat object exists and the chat has messages, an open is answered
  by the existing session: nothing but the open flag changes, no call is made, and the
  messages and the chat object are as before. So when a session exists after an open has
  run to its end, a second open changes nothing at all, and if the first open had to
  start the session, the two opens together made one creation and sent the first prompt
  once. Hiding the chat window in between changes nothing of this. While the chat has no
  messages, an open that can create the chat object creates it and sends the first
  prompt, whether or not a chat object exists already; so in the pending state of an
  open whose first prompt is not yet answered, a second open creates a chat object again
  and sends the first prompt a second time.
\<close>

theorem chat_reopen_reuses_session:
  "(chatRef s \<noteq> None \<and> chatHistory s \<noteq> [] \<longrightarrow>
      handleStartChat P created response s = s\<lparr>isChatOpen := True\<rparr>) \<and>
   handleStartChat P created response (handleCloseChat s)
     = handleStartChat P created response s \<and>
   (chatRef (handleStartChat P created response s) \<noteq> None \<longrightarrow>
      handleStartChat P created' response' (handleStartChat P created response s)
        = handleStartChat P created response s \<and>
      chatHistory (handleStartChat P created' response' (handleStartChat P created response s))
        = chatHistory (handleStartChat P created response s) \<and>
      calls (handleStartChat P created' response' (handleStartChat P created response s))
        = calls (handleStartChat P created response s)) \<and>
   ((chatRef s = None \<or> chatHistory s = []) \<and> newChat P s = Some c \<and> created \<longrightarrow>
      calls (handleStartChat P created' response' (handleStartChat P created response s))
        = calls s @ [ChatsCreate (chatModel c) (systemInstruction c),
                     SendMessage c firstPrompt]) \<and>
   ((chatRef s = None \<or> chatHistory s = []) \<and> newChat P s = Some c \<and> created \<longrightarrow>
      chatRef (handleStartChat P created response s) = Some c \<and>
      calls (handleStartChat P created response s)
        = calls s @ [ChatsCreate (chatModel c) (systemInstruction c),
                     SendMessage c firstPrompt]) \<and>
   (newChat P s = Some c \<and> created \<longrightarrow>
      chatRef (handleStartChat_pending c s) = Some c \<and>
      chatHistory (handleStartChat_pending c s) = [] \<and>
      calls (handleStartChat P created response (handleStartChat_pending c s))
        = calls s @ [ChatsCreate (chatModel c) (systemInstruction c),
                     SendMessage c firstPrompt,
                     ChatsCreate (chatModel c) (systemInstruction c),
                     SendMessage c firstPrompt])"
proof -
  let ?first = "handleStartChat P created response s"
  have reuse: "handleStartChat P created response s = s\<lparr>isChatOpen := True\<rparr>"
    if "chatRef s \<noteq> None" "chatHistory s \<noteq> []"
    using that by (simp add: handleStartChat_def)
  have hide: "handleStartChat P created response (handleCloseChat s) = ?first"
    by (rule open_after_hide)
  have again: "handleStartChat P created' response' ?first = ?first"
    if "chatRef ?first \<noteq> None"
  proof -
    have "handleStartChat P created' response' ?first = ?first\<lparr>isChatOpen := True\<rparr>"
      using that open_leaves_messages(1) [of P created response s]
      by (simp add: handleStartChat_def)
    also have "\<dots> = ?first"
      using open_leaves_messages(2) [of P created response s] by simp
    finally show ?thesis .
  qed
  have fresh: "chatRef ?first = Some c \<and>
      calls ?first = calls s @ [ChatsCreate (chatModel c) (systemInstruction c),
                                SendMessage c firstPrompt]"
    if "chatRef s = None \<or> chatHistory s = []" "newChat P s = Some c" "created"
    using open_fresh [OF that(1) that(2), of response] that(3) by simp
  have twice: "calls (handleStartChat P created' response' ?first)
      = calls s @ [ChatsCreate (chatModel c) (systemInstruction c),
                   SendMessage c firstPrompt]"
    if "chatRef s = None \<or> chatHistory s = []" "newChat P s = Some c" "created"
  proof -
    from fresh [OF that] have "chatRef ?first \<noteq> None" and
      c: "calls ?first = calls s @ [ChatsCreate (chatModel c) (systemInstruction c),
                                    SendMessage c firstPrompt]"
      by simp_all
    then show ?thesis
      using again by simp
  qed
  have pending: "chatRef (handleStartChat_pending c s) = Some c \<and>
      chatHistory (handleStartChat_pending c s) = [] \<and>
      calls (handleStartChat P created response (handleStartChat_pending c s))
        = calls s @ [ChatsCreate (chatModel c) (systemInstruction c),
                     SendMessage c firstPrompt,
                     ChatsCreate (chatModel c) (systemInstruction c),
                     SendMessage c firstPrompt]"
    if "newChat P s = Some c" "created"
    using reopen_pending_calls [OF that(1), of response] that(2)
    by (simp add: handleStartChat_pending_def)
  show ?thesis
    using reuse hide again fresh twice pending by metis
qed

theorem chat_reopen_reuses_session_witness:
  "chatRef (handleStartChat samplePlatform True (Resolved (str ''ok'')) viewedApp) \<noteq> None \<and>
   chatHistory (handleStartChat samplePlatform True (Resolved (str ''ok'')) viewedApp) \<noteq> [] \<and>
   (chatRef viewedApp = None \<or> chatHistory viewedApp = []) \<and>
   newChat samplePlatform viewedApp = Some sampleChat \<and>
   handleStartChat samplePlatform True (Resolved (str ''de novo''))
       (handleStartChat samplePlatform True (Resolved (str ''ok'')) viewedApp)
     = handleStartChat samplePlatform True (Resolved (str ''ok'')) viewedApp \<and>
   calls (handleStartChat samplePlatform True (Resolved (str ''de novo''))
            (handleStartChat samplePlatform True (Resolved (str ''ok'')) viewedApp))
     = calls viewedApp
       @ [ChatsCreate (chatModel sampleChat) (systemInstruction sampleChat),
          SendMessage sampleChat firstPrompt]"
proof -
  have h1: "chatRef (handleStartChat samplePlatform True (Resolved (str ''ok'')) viewedApp)
              \<noteq> None"
    by (simp add: sample_chat)
  have h2: "chatHistory (handleStartChat samplePlatform True (Resolved (str ''ok'')) viewedApp)
              \<noteq> []"
    by (simp add: sample_chat)
  have h3: "chatRef viewedApp = None \<or> chatHistory viewedApp = []"
    by (simp add: sample_inputs)
  have h4: "newChat samplePlatform viewedApp = Some sampleChat"
    by (rule sample_newChat)
  show ?thesis
    using chat_reopen_reuses_session
        [of viewedApp samplePlatform True "Resolved (str ''ok'')" True
          "Resolved (str ''de novo'')" sampleChat]
      h1 h2 h3 h4
    by blast
qed

text \<open>
  The claim as first stated, that a second open reuses the existing session and the first
  prompt is sent once, fails while the first open awaits its reply: the chat object is
  in the ref, the chat has no messages yet, and a second open creates a chat object
  again and sends the first prompt a second time.
\<close>

theorem chat_reopen_while_pending_counterexample:
  "newChat samplePlatform viewedApp = Some sampleChat \<and>
   handleStartChat samplePlatform True (Resolved (str ''ok'')) viewedApp
     = handleStartChat_settle (Resolved (str ''ok''))
         (handleStartChat_pending sampleChat viewedApp) \<and>
   chatRef (handleStartChat_pending sampleChat viewedApp) = Some sampleChat \<and>
   chatHistory (handleStartChat_pending sampleChat viewedApp) = [] \<and>
   calls (handleStartChat_pending sampleChat viewedApp)
     = [ChatsCreate (chatModel sampleChat) (systemInstruction sampleChat),
        SendMessage sampleChat firstPrompt] \<and>
   calls (handleStartChat samplePlatform True (Resolved (str ''ok''))
            (handleStartChat_pending sampleChat viewedApp))
     = [ChatsCreate (chatModel sampleChat) (systemInstruction sampleChat),
        SendMessage sampleChat firstPrompt,
        ChatsCreate (chatModel sampleChat) (systemInstruction sampleChat),
        SendMessage sampleChat firstPrompt] \<and>
   calls (handleStartChat samplePlatform True (Resolved (str ''ok''))
            (handleCloseChat (handleStartChat_pending sampleChat viewedApp)))
     = [ChatsCreate (chatModel sampleChat) (systemInstruction sampleChat),
        SendMessage sampleChat firstPrompt,
        ChatsCreate (chatModel sampleChat) (systemInstruction sampleChat),
        SendMessage sampleChat firstPrompt]"
proof -
  have first: "handleStartChat samplePlatform True (Resolved (str ''ok'')) viewedApp
      = handleStartChat_settle (Resolved (str ''ok''))
          (handleStartChat_pending sampleChat viewedApp)"
    by (simp add: handleStartChat_def sample_newChat sample_inputs)
  have second: "calls (handleStartChat samplePlatform True (Resolved (str ''ok''))
            (handleStartChat_pending sampleChat viewedApp))
     = [ChatsCreate (chatModel sampleChat) (systemInstruction sampleChat),
        SendMessage sampleChat firstPrompt,
        ChatsCreate (chatModel sampleChat) (systemInstruction sampleChat),
        SendMessage sampleChat firstPrompt]"
    using reopen_pending_calls [OF sample_newChat, of "Resolved (str ''ok'')"]
    by (simp add: sample_inputs)
  have pending: "chatRef (handleStartChat_pending sampleChat viewedApp) = Some sampleChat"
    "chatHistory (handleStartChat_pending sampleChat viewedApp) = []"
    "calls (handleStartChat_pending sampleChat viewedApp)
     = [ChatsCreate (chatModel sampleChat) (systemInstruction sampleChat),
        SendMessage sampleChat firstPrompt]"
    by (simp_all add: handleStartChat_pending_def sample_inputs)
  show ?thesis
    using first second pending sample_newChat
    by (simp only: open_after_hide simp_thms)
qed



section \<open>Properties of navigation\<close>

text \<open>
  C7. Going home sets the view to home, clears the current result and the error, and
  drops the chat (its messages, the chat object, the open flag); the input text stays
  as it was. This holds in every state, so also in those whose view is the result view.
\<close>

theorem goHome_effect:
  "view (handleGoHome s) = Home \<and>
   result (handleGoHome s) = None \<and>
   error (handleGoHome s) = [] \<and>
   chatRef (handleGoHome s) = None \<and>
   chatHistory (handleGoHome s) = [] \<and>
   isChatOpen (handleGoHome s) = False \<and>
   inputText (handleGoHome s) = inputText s"
  by (simp add: handleGoHome_def)

text \<open>
  C9. Viewing a history item leaves the error message as it was; it makes the item the
  current result, drops the chat and shows the result view.
\<close>

theorem viewHistoryItem_keeps_error:
  "error (handleViewHistoryItem item s) = error s \<and>
   result (handleViewHistoryItem item s) = Some item \<and>
   chatRef (handleViewHistoryItem item s) = None \<and>
   chatHistory (handleViewHistoryItem item s) = [] \<and>
   isChatOpen (handleViewHistoryItem item s) = False \<and>
   view (handleViewHistoryItem item s) = Result"
  by (simp add: handleViewHistoryItem_def)

section \<open>Properties of the startup load\<close>

text \<open>
  C8 (amended). At startup, a stored entry that is not the empty string and that
  \<open>JSON.parse\<close> refuses is removed from the storage, the history starts empty and no
  error is shown. One that is not the empty string and parses becomes the history as
  the value it parses to, unchecked, the storage left as it is and no error shown: a
  stored sequence becomes the initial history, and a value that is not a sequence is
  put in its place all the same. An absent entry and an entry holding the empty string
  are not parsed at all: the application starts in its initial state, the storage
  untouched.
\<close>

theorem load_contract:
  "(storage historyKey = Some c \<and> c \<noteq> [] \<and> JSON_parse P c = None \<longrightarrow>
      startup P storage = App_init (storage(historyKey := None)) \<and>
      translationHistory (startup P storage) = JArray [] \<and>
      localStorage (startup P storage) historyKey = None \<and>
      error (startup P storage) = []) \<and>
   (storage historyKey = Some c \<and> c \<noteq> [] \<and> JSON_parse P c = Some v \<longrightarrow>
      startup P storage = (App_init storage)\<lparr>translationHistory := v\<rparr> \<and>
      translationHistory (startup P storage) = v \<and>
      localStorage (startup P storage) = storage \<and>
      error (startup P storage) = []) \<and>
   (storage historyKey = None \<or> storage historyKey = Some [] \<longrightarrow>
      startup P storage = App_init storage)"
  by (auto simp: startup_def loadHistory_def App_init_def)

theorem load_contract_witness:
  "JSON_parse samplePlatform (str ''[{'') = None \<and>
   translationHistory (startup samplePlatform brokenEntryStorage) = JArray [] \<and>
   localStorage (startup samplePlatform brokenEntryStorage) historyKey = None \<and>
   JSON_parse samplePlatform (str ''[{}]'') = Some (JArray [emptyObject]) \<and>
   translationHistory (startup samplePlatform oneEntryStorage) = JArray [emptyObject] \<and>
   JSON_parse samplePlatform (str ''null'') = Some JNull \<and>
   translationHistory (startup samplePlatform nullEntryStorage) = JNull \<and>
   localStorage (startup samplePlatform nullEntryStorage) = nullEntryStorage \<and>
   iterate JNull = None \<and>
   startup samplePlatform emptyEntryStorage = App_init emptyEntryStorage"
proof -
  have h1: "JSON_parse samplePlatform (str ''[{'') = None"
    and h2: "JSON_parse samplePlatform (str ''[{}]'') = Some (JArray [emptyObject])"
    and h3: "JSON_parse samplePlatform (str ''null'') = Some JNull"
    by (rule sample_parse)+
  have s1: "brokenEntryStorage historyKey = Some (str ''[{'')"
    and s2: "oneEntryStorage historyKey = Some (str ''[{}]'')"
    and s3: "emptyEntryStorage historyKey = Some []"
    and s4: "nullEntryStorage historyKey = Some (str ''null'')"
    by (simp_all add: brokenEntryStorage_def oneEntryStorage_def emptyEntryStorage_def
        nullEntryStorage_def)
  have n: "str ''[{'' \<noteq> []" "str ''[{}]'' \<noteq> []" "str ''null'' \<noteq> []"
    by (rule sample_nonempty)+
  have i: "iterate JNull = None"
    by (rule iterate_simps)
  have broken: "translationHistory (startup samplePlatform brokenEntryStorage) = JArray [] \<and>
      localStorage (startup samplePlatform brokenEntryStorage) historyKey = None"
    using load_contract [of brokenEntryStorage "str ''[{''" samplePlatform] h1 s1 n(1)
    by blast
  have one: "translationHistory (startup samplePlatform oneEntryStorage) = JArray [emptyObject]"
    using load_contract [of oneEntryStorage "str ''[{}]''" samplePlatform "JArray [emptyObject]"]
      h2 s2 n(2)
    by blast
  have null: "translationHistory (startup samplePlatform nullEntryStorage) = JNull \<and>
      localStorage (startup samplePlatform nullEntryStorage) = nullEntryStorage"
    using load_contract [of nullEntryStorage "str ''null''" samplePlatform JNull]
      h3 s4 n(3)
    by blast
  have empty: "startup samplePlatform emptyEntryStorage = App_init emptyEntryStorage"
    using load_contract [of emptyEntryStorage "[]" samplePlatform] s3
    by blast
  show ?thesis
    using h1 h2 h3 i broken one null empty by blast
qed

text \<open>
  The claim as first stated, that every stored content that fails to deserialise is
  removed, fails for the empty string: \<open>JSON.parse\<close> rejects it, but the load never
  parses it, and the entry stays in the storage.
\<close>

theorem load_empty_entry_counterexample:
  "emptyEntryStorage historyKey = Some [] \<and>
   JSON_parse samplePlatform [] = None \<and>
   localStorage (startup samplePlatform emptyEntryStorage) historyKey = Some []"
  by (simp add: emptyEntryStorage_def sample_parse startup_def loadHistory_def App_init_def)

end
